theory Spec2Isabelle
  imports Complex_Main
begin

section \<open>JavaScript values used by the transcoding wrapper\<close>

text \<open>
  The program under study is \<^verbatim>\<open>src/index.js\<close>, a Node.js wrapper that probes a video
  file, derives x265 arguments from the probe data, transcodes, re-injects HDR metadata
  and remuxes.  The embedding below follows that file function by function.

  Numbers: a JavaScript number is modelled as \<open>NaN\<close>, \<open>+Infinity\<close>, \<open>-Infinity\<close> or
  an exact real.  The rounding of IEEE-754 doubles, overflow to infinity and the sign
  of zero are not represented: every finite result is the exact value of the
  arithmetic expression the source computes.
\<close>

datatype jsnum = NaN | PInf | NInf | Fin real

text \<open>The values that reach the functions below out of \<^verbatim>\<open>JSON.parse\<close> (objects and
  arrays are modelled by the records that hold them, not as field values).\<close>

datatype jsval = JUndefined | JNull | JBool bool | JNum jsnum | JStr string

text \<open>What the program throws: \<^verbatim>\<open>new Error(msg)\<close>; the engine's \<^verbatim>\<open>TypeError\<close> for a
  property read or a method call on \<^verbatim>\<open>undefined\<close> or on a value without that method
  (the string names the failing access); the \<^verbatim>\<open>SyntaxError\<close> of \<^verbatim>\<open>JSON.parse\<close>; the error of
  a rejected file-system call.\<close>

datatype js_error = Error string | TypeError string | SyntaxError string | SystemError string

definition isNaN :: "jsnum \<Rightarrow> bool" where
  "isNaN n = (n = NaN)"

fun js_neg :: "jsnum \<Rightarrow> jsnum" where
  "js_neg NaN = NaN"
| "js_neg PInf = NInf"
| "js_neg NInf = PInf"
| "js_neg (Fin a) = Fin (- a)"



fun js_mul :: "jsnum \<Rightarrow> jsnum \<Rightarrow> jsnum" where
  "js_mul (Fin a) (Fin b) = Fin (a * b)"
| "js_mul NaN _ = NaN"
| "js_mul _ NaN = NaN"
| "js_mul PInf (Fin b) = (if b = 0 then NaN else if 0 < b then PInf else NInf)"
| "js_mul NInf (Fin b) = (if b = 0 then NaN else if 0 < b then NInf else PInf)"
| "js_mul (Fin a) PInf = (if a = 0 then NaN else if 0 < a then PInf else NInf)"
| "js_mul (Fin a) NInf = (if a = 0 then NaN else if 0 < a then NInf else PInf)"
| "js_mul PInf PInf = PInf"
| "js_mul NInf NInf = PInf"
| "js_mul PInf NInf = NInf"
| "js_mul NInf PInf = NInf"

text \<open>Division: a finite dividend over zero is an infinity of the dividend's sign
  (zero is taken as positive), \<open>0 / 0\<close> and \<open>\<infinity> / \<infinity>\<close> are \<open>NaN\<close>.\<close>

fun js_div :: "jsnum \<Rightarrow> jsnum \<Rightarrow> jsnum" where
  "js_div (Fin a) (Fin b) =
     (if b = 0 then (if a = 0 then NaN else if 0 < a then PInf else NInf)
      else Fin (a / b))"
| "js_div NaN _ = NaN"
| "js_div _ NaN = NaN"
| "js_div (Fin a) PInf = Fin 0"
| "js_div (Fin a) NInf = Fin 0"
| "js_div PInf (Fin b) = (if 0 \<le> b then PInf else NInf)"
| "js_div NInf (Fin b) = (if 0 \<le> b then NInf else PInf)"
| "js_div PInf PInf = NaN"
| "js_div PInf NInf = NaN"
| "js_div NInf PInf = NaN"
| "js_div NInf NInf = NaN"

text \<open>\<^verbatim>\<open>Math.round\<close>: the nearest integer, a tie going up.\<close>

fun js_round :: "jsnum \<Rightarrow> jsnum" where
  "js_round (Fin a) = Fin (of_int \<lfloor>a + 1 / 2\<rfloor>)"
| "js_round n = n"





text \<open>Truthiness (\<^verbatim>\<open>ToBoolean\<close>): \<^verbatim>\<open>undefined\<close>, \<^verbatim>\<open>null\<close>, \<^verbatim>\<open>false\<close>, \<^verbatim>\<open>0\<close>, \<^verbatim>\<open>NaN\<close> and
  the empty string are falsy.\<close>

fun truthy :: "jsval \<Rightarrow> bool" where
  "truthy JUndefined = False"
| "truthy JNull = False"
| "truthy (JBool b) = b"
| "truthy (JNum n) = (n \<noteq> NaN \<and> n \<noteq> Fin 0)"
| "truthy (JStr s) = (s \<noteq> [])"

subsection \<open>Strings\<close>

definition is_digit :: "char \<Rightarrow> bool" where
  "is_digit c = (c \<in> set ''0123456789'')"

definition is_ws :: "char \<Rightarrow> bool" where
  "is_ws c = (c \<in> set [CHR 0x09, CHR 0x0A, CHR 0x0B, CHR 0x0C, CHR 0x0D, CHR '' ''])"

text \<open>\<^verbatim>\<open>String.prototype.trim\<close>, on the ASCII white space and line terminators.\<close>

definition trim :: "string \<Rightarrow> string" where
  "trim s = rev (dropWhile is_ws (rev (dropWhile is_ws s)))"

fun startsWith :: "string \<Rightarrow> string \<Rightarrow> bool" where
  "startsWith s [] = True"
| "startsWith [] (p # ps) = False"
| "startsWith (c # cs) (p # ps) = (c = p \<and> startsWith cs ps)"

fun str_includes :: "string \<Rightarrow> string \<Rightarrow> bool" where
  "str_includes [] sub = (sub = [])"
| "str_includes (c # cs) sub = (startsWith (c # cs) sub \<or> str_includes cs sub)"

text \<open>\<^verbatim>\<open>toLowerCase\<close> on ASCII letters.\<close>

definition lower_char :: "char \<Rightarrow> char" where
  "lower_char c =
     (if (65::nat) \<le> of_char c \<and> of_char c \<le> (90::nat)
      then char_of (of_char c + (32::nat)) else c)"

definition toLowerCase :: "string \<Rightarrow> string" where
  "toLowerCase s = map lower_char s"

text \<open>\<^verbatim>\<open>s.split(c)\<close> for a one-character separator: the pieces between the separators,
  never an empty array (\<^verbatim>\<open>"".split("/")\<close> is \<^verbatim>\<open>[""]\<close>).\<close>

fun split_on :: "char \<Rightarrow> string \<Rightarrow> string list" where
  "split_on c [] = [[]]"
| "split_on c (x # xs) =
     (if x = c then [] # split_on c xs
      else (case split_on c xs of [] \<Rightarrow> [[x]] | w # ws \<Rightarrow> (x # w) # ws))"

text \<open>\<^verbatim>\<open>s.replace(/\D/g, "")\<close>: the decimal digits of \<open>s\<close>, in order.\<close>

definition strip_non_digits :: "string \<Rightarrow> string" where
  "strip_non_digits s = filter is_digit s"


subsection \<open>String to number and back\<close>

definition digit_val :: "char \<Rightarrow> nat" where
  "digit_val c =
     (if is_digit c then of_char c - 48
      else if c \<in> set ''abcdef'' then of_char c - 87
      else of_char c - 55)"

definition digits_val :: "nat \<Rightarrow> string \<Rightarrow> nat" where
  "digits_val b s = foldl (\<lambda>a c. b * a + digit_val c) 0 s"

definition all_digits :: "string \<Rightarrow> bool" where
  "all_digits s = (s \<noteq> [] \<and> list_all is_digit s)"

definition all_in :: "string \<Rightarrow> string \<Rightarrow> bool" where
  "all_in alphabet s = (s \<noteq> [] \<and> list_all (\<lambda>c. c \<in> set alphabet) s)"

text \<open>The exponent after \<^verbatim>\<open>e\<close> or \<^verbatim>\<open>E\<close>: digits with an optional sign.\<close>

definition signed_integer :: "string \<Rightarrow> int option" where
  "signed_integer s =
     (case s of
        [] \<Rightarrow> None
      | c # r \<Rightarrow>
          if c = CHR ''+'' then (if all_digits r then Some (int (digits_val 10 r)) else None)
          else if c = CHR ''-'' then (if all_digits r then Some (- int (digits_val 10 r)) else None)
          else if all_digits s then Some (int (digits_val 10 s)) else None)"

definition scale10 :: "nat \<Rightarrow> int \<Rightarrow> real" where
  "scale10 m k = (if 0 \<le> k then real m * 10 ^ nat k else real m / 10 ^ nat (- k))"

text \<open>\<^verbatim>\<open>StrUnsignedDecimalLiteral\<close> of ECMAScript's \<^verbatim>\<open>StringToNumber\<close>: \<^verbatim>\<open>Infinity\<close>, or
  digits with an optional fraction and an optional exponent, at least one digit before
  or after the point.  Anything else is \<open>NaN\<close>.\<close>

definition str_unsigned_decimal :: "string \<Rightarrow> jsnum" where
  "str_unsigned_decimal s =
     (if s = ''Infinity'' then PInf
      else
        let ip = takeWhile is_digit s;
            r1 = dropWhile is_digit s;
            dot = (r1 \<noteq> [] \<and> hd r1 = CHR ''.'');
            fp = (if dot then takeWhile is_digit (tl r1) else []);
            r2 = (if dot then dropWhile is_digit (tl r1) else r1);
            ex = (if r2 = [] then Some 0
                  else if hd r2 = CHR ''e'' \<or> hd r2 = CHR ''E'' then signed_integer (tl r2)
                  else None)
        in if ip = [] \<and> fp = [] then NaN
           else (case ex of
                   None \<Rightarrow> NaN
                 | Some e \<Rightarrow> Fin (scale10 (digits_val 10 (ip @ fp)) (e - int (length fp)))))"

text \<open>\<^verbatim>\<open>Number(s)\<close> for a string: white space is trimmed, the empty string is \<open>0\<close>, a
  \<^verbatim>\<open>0x\<close>, \<^verbatim>\<open>0o\<close> or \<^verbatim>\<open>0b\<close> literal takes no sign, a decimal literal takes one.\<close>

definition Number_str :: "string \<Rightarrow> jsnum" where
  "Number_str s =
     (let t = trim s in
      if t = [] then Fin 0
      else if take 2 t = ''0x'' \<or> take 2 t = ''0X'' then
        (if all_in ''0123456789abcdefABCDEF'' (drop 2 t)
         then Fin (real (digits_val 16 (drop 2 t))) else NaN)
      else if take 2 t = ''0o'' \<or> take 2 t = ''0O'' then
        (if all_in ''01234567'' (drop 2 t) then Fin (real (digits_val 8 (drop 2 t))) else NaN)
      else if take 2 t = ''0b'' \<or> take 2 t = ''0B'' then
        (if all_in ''01'' (drop 2 t) then Fin (real (digits_val 2 (drop 2 t))) else NaN)
      else if hd t = CHR ''+'' then str_unsigned_decimal (tl t)
      else if hd t = CHR ''-'' then js_neg (str_unsigned_decimal (tl t))
      else str_unsigned_decimal t)"

text \<open>\<^verbatim>\<open>Number(v)\<close> for the other values.\<close>

fun Number_val :: "jsval \<Rightarrow> jsnum" where
  "Number_val JUndefined = NaN"
| "Number_val JNull = Fin 0"
| "Number_val (JBool b) = Fin (if b then 1 else 0)"
| "Number_val (JNum n) = n"
| "Number_val (JStr s) = Number_str s"

text \<open>Decimal digits of a natural number and of an integer.\<close>

definition digit_chars :: string where
  "digit_chars = ''0123456789''"

fun show_nat :: "nat \<Rightarrow> string" where
  "show_nat n =
     (if n < 10 then [digit_chars ! n]
      else show_nat (n div 10) @ [digit_chars ! (n mod 10)])"

declare show_nat.simps [simp del]

definition show_int :: "int \<Rightarrow> string" where
  "show_int i = (if i < 0 then CHR ''-'' # show_nat (nat (- i)) else show_nat (nat i))"

text \<open>\<^verbatim>\<open>String(n)\<close> for a number.  An integral value below \<open>10\<^sup>2\<^sup>1\<close> prints its decimal
  digits, and every number the translators below print is integral; the shortest
  round-trip digits of a fraction belong to the double format and are not modelled, a
  fraction prints its integer part here.\<close>

fun show_num :: "jsnum \<Rightarrow> string" where
  "show_num NaN = ''NaN''"
| "show_num PInf = ''Infinity''"
| "show_num NInf = ''-Infinity''"
| "show_num (Fin a) = show_int \<lfloor>a\<rfloor>"

section \<open>Numeric and string translators\<close>

text \<open>
  \<^verbatim>\<open>
  function parse_slash_number(input) {
      const s = input.split("/");
      if (s.length < 2) { return Number(input); }
      if (s.length > 2 || isNaN(Number(s[0])) || isNaN(Number(s[1]))) { return NaN; }
      return Number(s[0]) / Number(s[1]);
  }
  \<close>
\<close>

definition parse_slash_number :: "string \<Rightarrow> jsnum" where
  "parse_slash_number input =
     (let s = split_on CHR ''/'' input in
      if length s < 2 then Number_str input
      else if length s > 2 \<or> isNaN (Number_str (s ! 0)) \<or> isNaN (Number_str (s ! 1)) then NaN
      else js_div (Number_str (s ! 0)) (Number_str (s ! 1)))"

text \<open>
  \<^verbatim>\<open>
  function parse_pix_fmt(input) {
      if (!input.includes("yuv")) { throw new Error("Input must be YUV"); }
      const s = input.split("p");
      return { csp: `i${s[0].replace(/\D/g, "")}`, depth: s[1].replace(/\D/g, "") || "8" }
  }
  \<close>
  When the input has no \<^verbatim>\<open>p\<close>, \<^verbatim>\<open>s[1]\<close> is \<^verbatim>\<open>undefined\<close> and the call of \<^verbatim>\<open>replace\<close> on
  it throws a \<^verbatim>\<open>TypeError\<close>.
\<close>

record pix_fmt =
  csp :: string
  depth :: string

definition parse_pix_fmt :: "string \<Rightarrow> js_error + pix_fmt" where
  "parse_pix_fmt input =
     (if \<not> str_includes input ''yuv'' then Inl (Error ''Input must be YUV'')
      else
        let s = split_on CHR ''p'' input in
        if length s < 2 then Inl (TypeError ''s[1].replace'')
        else Inr \<lparr>csp = ''i'' @ strip_non_digits (s ! 0),
                  depth = (if strip_non_digits (s ! 1) = [] then ''8''
                           else strip_non_digits (s ! 1))\<rparr>)"

text \<open>An object out of the probe's JSON, read by property name; a property the object
  does not have reads as \<^verbatim>\<open>undefined\<close>.\<close>

type_synonym js_object = "string \<Rightarrow> jsval"

definition empty_object :: js_object where
  "empty_object = (\<lambda>k. JUndefined)"

text \<open>\<^verbatim>\<open>parse_slash_number(v)\<close> for a value that need not be a string: only a string has
  \<^verbatim>\<open>split\<close>.\<close>

fun parse_slash_number_val :: "jsval \<Rightarrow> js_error + jsnum" where
  "parse_slash_number_val (JStr s) = Inr (parse_slash_number s)"
| "parse_slash_number_val v = Inl (TypeError ''input.split'')"

text \<open>
  \<^verbatim>\<open>
  function parse_master_display(p) {
      const o = [];
      const list = [p.green_x, p.green_y, p.blue_x, p.blue_y, p.red_x, p.red_y,
                    p.white_point_x, p.white_point_y, p.max_luminance, p.min_luminance];
      for (const i in list) {
          if (!list[i]) { throw new Error("this wrong"); }
          const num = parse_slash_number(list[i]);
          if (isNaN(num)) { throw new Error("this wrong"); }
          o.push(Math.round(num * ((i > 7) ? 10000 : 50000)));
      }
      return `G(${o[0]},${o[1]})B(${o[2]},${o[3]})R(${o[4]},${o[5]})WP(${o[6]},${o[7]})L(${o[8]},${o[9]})`;
  }
  \<close>
\<close>

definition master_fields :: "string list" where
  "master_fields =
     [''green_x'', ''green_y'', ''blue_x'', ''blue_y'', ''red_x'', ''red_y'',
      ''white_point_x'', ''white_point_y'', ''max_luminance'', ''min_luminance'']"

definition scale_of :: "nat \<Rightarrow> real" where
  "scale_of i = (if i > 7 then 10000 else 50000)"

fun master_loop :: "nat \<Rightarrow> jsval list \<Rightarrow> jsnum list \<Rightarrow> js_error + jsnum list" where
  "master_loop i [] out = Inr out"
| "master_loop i (x # xs) out =
     (if \<not> truthy x then Inl (Error ''this wrong'')
      else (case parse_slash_number_val x of
              Inl e \<Rightarrow> Inl e
            | Inr num \<Rightarrow>
                if isNaN num then Inl (Error ''this wrong'')
                else master_loop (Suc i) xs (out @ [js_round (js_mul num (Fin (scale_of i)))])))"

definition master_string :: "jsnum list \<Rightarrow> string" where
  "master_string out =
     ''G('' @ show_num (out ! 0) @ '','' @ show_num (out ! 1) @
     '')B('' @ show_num (out ! 2) @ '','' @ show_num (out ! 3) @
     '')R('' @ show_num (out ! 4) @ '','' @ show_num (out ! 5) @
     '')WP('' @ show_num (out ! 6) @ '','' @ show_num (out ! 7) @
     '')L('' @ show_num (out ! 8) @ '','' @ show_num (out ! 9) @ '')''"

definition parse_master_display :: "js_object \<Rightarrow> js_error + string" where
  "parse_master_display p =
     (case master_loop 0 (map p master_fields) [] of
        Inl e \<Rightarrow> Inl e
      | Inr out \<Rightarrow> Inr (master_string out))"




section \<open>Probe data\<close>

text \<open>A stream or frame descriptor of the probe's output, with the properties the
  program reads.  \<open>tags\<close> holds the entries of the tag object in the order
  \<^verbatim>\<open>Object.entries\<close> gives them; \<open>None\<close> is an absent property.\<close>

record descriptor =
  codec_type :: jsval
  pix_fmt :: jsval
  duration :: jsval
  r_frame_rate :: jsval
  field_order :: jsval
  tags :: "(string \<times> jsval) list option"
  side_data_list :: "js_object list option"


text \<open>
  \<^verbatim>\<open>
  function get_duration(stream, format) {
      if (stream.duration) { return Number(stream.duration); }
      if (stream.tags) {
          for (const [k, v] of Object.entries(stream.tags)) {
              if (k.toLowerCase().startsWith("duration")) {
                  return Date.parse(`1970-01-01T${v}Z`) / 1000;
              } else if (format.duration) {
                  return Number(format.duration);
              }
          }
      }
      return NaN;
  }
  \<close>
  \<^verbatim>\<open>Date.parse\<close> belongs to the engine: the parameter \<open>ts\<close> stands for
  \<^verbatim>\<open>v => Date.parse(`1970-01-01T${v}Z`) / 1000\<close>.  The loop returns \<open>Some\<close> result when
  an iteration returns and \<open>None\<close> when it runs to its end.
\<close>

fun tags_loop :: "(jsval \<Rightarrow> jsnum) \<Rightarrow> jsval \<Rightarrow> (string \<times> jsval) list \<Rightarrow> jsnum option" where
  "tags_loop ts fdur [] = None"
| "tags_loop ts fdur ((k, v) # es) =
     (if startsWith (toLowerCase k) ''duration'' then Some (ts v)
      else if truthy fdur then Some (Number_val fdur)
      else tags_loop ts fdur es)"

definition get_duration :: "(jsval \<Rightarrow> jsnum) \<Rightarrow> descriptor \<Rightarrow> js_object \<Rightarrow> jsnum" where
  "get_duration ts stream format =
     (if truthy (duration stream) then Number_val (duration stream)
      else (case tags stream of
              None \<Rightarrow> NaN
            | Some es \<Rightarrow>
                (case tags_loop ts (format ''duration'') es of
                   Some r \<Rightarrow> r
                 | None \<Rightarrow> NaN)))"

section \<open>Progress of the transcode\<close>










section \<open>Encoder arguments: output depth\<close>






section \<open>Processes, temporary files and the job's paths\<close>

text \<open>
  The program acts on the world by starting processes (\<^verbatim>\<open>spawn\<close>), by removing files
  (\<^verbatim>\<open>rm\<close>) and by reporting an error (\<^verbatim>\<open>err\<close>).  A run is modelled by the list of these
  events in the order they happen, and the world's answers by an environment: the
  exit code and diagnostic text of each process, whether a removal fails, the random
  part of each temporary name.  The answers may depend on the position of the event
  in the run, so nothing is assumed about them.  Log lines and the \<^verbatim>\<open>stdio\<close> wiring
  (the verbose flag \<^verbatim>\<open>v\<close>) have no effect on control flow and are left out.
\<close>

datatype tool = FFMPEG | FFPROBE | DOVI_TOOL | HDR10PLUS_TOOL | X265 | MKVMERGE

text \<open>What \<^verbatim>\<open>err\<close> prints: a message of the program, or a caught exception.\<close>

datatype report = Msg string | Exn js_error

datatype event = Spawn tool "string list" | Rm string | Err report

text \<open>The object the probe prints, read by \<^verbatim>\<open>JSON.parse\<close>: its \<^verbatim>\<open>streams\<close>, \<^verbatim>\<open>frames\<close> and
  \<^verbatim>\<open>format\<close> properties, each possibly absent.\<close>

record probe_data =
  d_streams :: "descriptor list option"
  d_frames :: "descriptor list option"
  d_format :: "js_object option"

record env =
  cwd :: string
  random_hex :: "nat \<Rightarrow> string"
  exit_of :: "nat \<Rightarrow> tool \<Rightarrow> string list \<Rightarrow> int option \<times> string"
  rm_fails :: "nat \<Rightarrow> string \<Rightarrow> bool"
  probe_json :: "probe_data option"

record world =
  names :: nat
  trace :: "event list"

text \<open>
  \<^verbatim>\<open>
  const TEMP_BASE = ".hdrsucks-";
  function generate_temp_name(extra = "") {
      return join(process.cwd(), TEMP_BASE + randomBytes(3).toString("hex") + extra);
  }
  \<close>
  \<open>random_hex en k\<close> is the hexadecimal text of the \<open>k\<close>-th draw; the working directory
  is taken without a trailing separator, so \<^verbatim>\<open>join\<close> puts one \<^verbatim>\<open>/\<close> between the two.
\<close>

definition TEMP_BASE :: string where
  "TEMP_BASE = ''.hdrsucks-''"

definition generate_temp_name :: "env \<Rightarrow> string \<Rightarrow> world \<Rightarrow> string \<times> world" where
  "generate_temp_name en extra w =
     (cwd en @ ''/'' @ TEMP_BASE @ random_hex en (names w) @ extra,
      w\<lparr>names := Suc (names w)\<rparr>)"

text \<open>Starting a process records the event and yields what the process will exit
  with: its code (\<open>None\<close> for \<^verbatim>\<open>null\<close>, a process ended by a signal) and its diagnostic
  text.\<close>

definition spawn :: "env \<Rightarrow> tool \<Rightarrow> string list \<Rightarrow> world \<Rightarrow> (int option \<times> string) \<times> world" where
  "spawn en t args w =
     (exit_of en (length (trace w)) t args, w\<lparr>trace := trace w @ [Spawn t args]\<rparr>)"

text \<open>\<^verbatim>\<open>await rm(path)\<close>: \<open>True\<close> when the removal succeeded, \<open>False\<close> when its promise
  rejected.\<close>

definition rm :: "env \<Rightarrow> string \<Rightarrow> world \<Rightarrow> bool \<times> world" where
  "rm en path w =
     (\<not> rm_fails en (length (trace w)) path, w\<lparr>trace := trace w @ [Rm path]\<rparr>)"

text \<open>The object \<^verbatim>\<open>{ c, e }\<close> that \<^verbatim>\<open>ff_xtract\<close> and \<^verbatim>\<open>ff_inject\<close> resolve with: \<^verbatim>\<open>e\<close> is
  \<^verbatim>\<open>null\<close> when the code is 0 and the trimmed diagnostic text otherwise.\<close>

record proc_result =
  res_c :: "int option"
  res_e :: "string option"

definition exit_result :: "int option \<times> string \<Rightarrow> proc_result" where
  "exit_result x =
     (if fst x = Some 0 then \<lparr>res_c = fst x, res_e = None\<rparr>
      else \<lparr>res_c = fst x, res_e = Some (trim (snd x))\<rparr>)"

text \<open>\<^verbatim>\<open>if (result.e)\<close>: \<^verbatim>\<open>null\<close> and the empty string are falsy.\<close>

definition failed :: "proc_result \<Rightarrow> bool" where
  "failed r = (case res_e r of None \<Rightarrow> False | Some s \<Rightarrow> s \<noteq> [])"

definition show_code :: "int option \<Rightarrow> string" where
  "show_code x = (case x of None \<Rightarrow> ''null'' | Some i \<Rightarrow> show_int i)"

definition show_e :: "string option \<Rightarrow> string" where
  "show_e x = (case x of None \<Rightarrow> ''null'' | Some s \<Rightarrow> s)"


text \<open>
  \<^verbatim>\<open>
  function ff_inject(p, args) {
      ...
      const proc = spawn(p, args, { stdio: ["ignore", "inherit", "pipe"] });
      proc.on("exit", async c => {
          if (c === 0) { return res({ c, e: null }); }
          res({ c, e: Buffer.concat(bufsErr).toString().trim() });
      });
  }
  \<close>
\<close>

definition ff_inject :: "env \<Rightarrow> tool \<Rightarrow> string list \<Rightarrow> world \<Rightarrow> proc_result \<times> world" where
  "ff_inject en p args w = (case spawn en p args w of (r, w1) \<Rightarrow> (exit_result r, w1))"

text \<open>
  The record \<^verbatim>\<open>paths\<close> of \<^verbatim>\<open>main\<close>:
  \<^verbatim>\<open>
  let paths = { input: ..., output: ..., temp: generate_temp_name(".hevc"),
                dv: null, plus: null, audio_temp: [] };
  \<close>
  \<open>None\<close> is \<^verbatim>\<open>null\<close>.  The fields \<^verbatim>\<open>output\<close> and \<^verbatim>\<open>plus\<close> are named \<open>output'\<close> and
  \<open>plus'\<close> here.
\<close>

record paths =
  input :: string
  output' :: string
  temp :: string
  dv :: "string option"
  plus' :: "string option"
  audio_temp :: "string list"

text \<open>How an asynchronous function that a promise executor wraps can stop early:
  it calls \<^verbatim>\<open>rej\<close> and returns, or an exception escapes it (the promise is then never
  settled).\<close>

datatype abort = Reject string | Throw js_error

section \<open>HDR side data: detection and extraction\<close>


text \<open>
  The state of \<^verbatim>\<open>pre_hdr\<close>: the flags \<^verbatim>\<open>done\<close> (\<open>done_flags\<close>), the arguments \<^verbatim>\<open>out\<close> (\<open>out_args\<close>), the record \<^verbatim>\<open>paths\<close>
  it mutates and the world.
  \<^verbatim>\<open>
  function pre_hdr(stream, frame, paths, v) {
      return new Promise(async (res, rej) => {
          let _temp;
          let done = [false, false, false, false];
          let out = [];
          for (const e of [stream, frame]) {
              if (!e.side_data_list || e.side_data_list.length < 1) { continue; }
              _temp = find(e.side_data_list, "Mastering display metadata");
              if (!done[0] && _temp) {
                  done[0] = true;
                  out.push("--master-display", parse_master_display(_temp));
              }
              _temp = find(e.side_data_list, "Content light level metadata");
              if (!done[1] && _temp) {
                  done[1] = true;
                  out.push("--max-cll", `${_temp.max_content},${_temp.max_average}`);
              }
              _temp = find(e.side_data_list, "DOVI configuration record");
              if (!done[2] && _temp) {
                  done[2] = true;
                  paths.dv = generate_temp_name(".bin");
                  const result = await ff_xtract(paths.input, DOVI_TOOL,
                      `extract-rpu -o ${paths.dv} -`.split(" "), v);
                  if (result.e) {
                      return rej(`Extracting Dolby Vision failed (${result.c}): "${result.e}"`);
                  }
              }
              _temp = find(e.side_data_list, "HDR Dynamic Metadata SMPTE2094-40 (HDR10+)");
              if (!done[3] && _temp) {
                  done[3] = true;
                  paths.plus = generate_temp_name(".json");
                  const result = await ff_xtract(paths.input, HDR10PLUS_TOOL,
                      `extract -o ${paths.plus} -`.split(" "), v);
                  if (result.e) {
                      return rej(`Extracting HDR10+ failed (${result.c}): "${result.e}"`);
                  }
              }
          }
          res(out);
      });
  }
  \<close>
  Each of the four blocks is a step on the state; a step that stops the function
  returns the reason with the state reached.
\<close>

record hdr_state =
  done_flags :: "bool list"
  out_args :: "string list"
  pths :: paths
  wld :: world







definition quoted :: "string \<Rightarrow> string" where
  "quoted s = [CHR 0x22] @ s @ [CHR 0x22]"



text \<open>Running a step after one that may have stopped the function.\<close>

definition and_then ::
  "abort option \<times> hdr_state \<Rightarrow> (hdr_state \<Rightarrow> abort option \<times> hdr_state) \<Rightarrow> abort option \<times> hdr_state" where
  "and_then r f = (case r of (None, s) \<Rightarrow> f s | (Some a, s) \<Rightarrow> (Some a, s))"




section \<open>HDR side data: injection\<close>

text \<open>The values of the fields of \<^verbatim>\<open>paths\<close>, and \<^verbatim>\<open>Object.entries(paths)\<close>: the fields in the
  order the object literal of \<^verbatim>\<open>main\<close> creates them.\<close>

datatype pval = PStr string | PNull | PArr "string list"

definition opt_val :: "string option \<Rightarrow> pval" where
  "opt_val x = (case x of None \<Rightarrow> PNull | Some s \<Rightarrow> PStr s)"

definition entries :: "paths \<Rightarrow> (string \<times> pval) list" where
  "entries p =
     [(''input'', PStr (input p)), (''output'', PStr (output' p)), (''temp'', PStr (temp p)),
      (''dv'', opt_val (dv p)), (''plus'', opt_val (plus' p)),
      (''audio_temp'', PArr (audio_temp p))]"

text \<open>
  \<^verbatim>\<open>
  function post_hdr(paths) {
      return new Promise(async (res, rej) => {
          let currentFile = paths.temp;
          for (const [k, v] of Object.entries(paths)) {
              let args, tool;
              if (k === "dv" && v) {
                  args = ["inject-rpu", "--rpu-in", v];
                  tool = DOVI_TOOL;
              } else if (k === "plus" && v) {
                  args = ["inject", "-j", v];
                  tool = HDR10PLUS_TOOL;
              } else {
                  continue;
              }
              const newTemp = generate_temp_name(".hevc");
              args.push("-i", currentFile, "-o", newTemp);
              const result = await ff_inject(tool, args);
              if (result.e) {
                  return rej(`Injecting HDR (${k}) failed (${result.c}): "${result.e}"`);
              }
              await rm(currentFile);
              await rm(v);
              currentFile = newTemp;
          }
          res(currentFile);
      });
  }
  \<close>
  \<open>inject_choice\<close> is the choice of \<^verbatim>\<open>args\<close> and \<^verbatim>\<open>tool\<close> for an entry, \<open>None\<close> for
  \<^verbatim>\<open>continue\<close>; the value of \<^verbatim>\<open>dv\<close> or \<^verbatim>\<open>plus\<close> is a string or \<^verbatim>\<open>null\<close>, and the empty string is
  falsy.  A rejected \<^verbatim>\<open>rm\<close> is an exception inside the executor.
\<close>

fun inject_choice :: "string \<Rightarrow> pval \<Rightarrow> (string list \<times> tool \<times> string) option" where
  "inject_choice k (PStr v) =
     (if k = ''dv'' \<and> v \<noteq> [] then Some ([''inject-rpu'', ''--rpu-in'', v], DOVI_TOOL, v)
      else if k = ''plus'' \<and> v \<noteq> [] then Some ([''inject'', ''-j'', v], HDR10PLUS_TOOL, v)
      else None)"
| "inject_choice k v = None"

fun post_hdr_loop ::
  "env \<Rightarrow> (string \<times> pval) list \<Rightarrow> string \<Rightarrow> world \<Rightarrow> abort option \<times> string \<times> world" where
  "post_hdr_loop en [] currentFile w = (None, currentFile, w)"
| "post_hdr_loop en ((k, v) # rest) currentFile w =
     (case inject_choice k v of
        None \<Rightarrow> post_hdr_loop en rest currentFile w
      | Some (args, tool, sidecar) \<Rightarrow>
          (case generate_temp_name en ''.hevc'' w of
             (newTemp, w1) \<Rightarrow>
               (case ff_inject en tool (args @ [''-i'', currentFile, ''-o'', newTemp]) w1 of
                  (result, w2) \<Rightarrow>
                    if failed result
                    then (Some (Reject (''Injecting HDR ('' @ k @ '') failed ('' @
                            show_code (res_c result) @ ''): '' @
                            quoted (show_e (res_e result)))),
                          currentFile, w2)
                    else (case rm en currentFile w2 of
                            (ok1, w3) \<Rightarrow>
                              if \<not> ok1 then (Some (Throw (SystemError ''rm'')), currentFile, w3)
                              else (case rm en sidecar w3 of
                                      (ok2, w4) \<Rightarrow>
                                        if \<not> ok2
                                        then (Some (Throw (SystemError ''rm'')), currentFile, w4)
                                        else post_hdr_loop en rest newTemp w4)))))"

text \<open>\<^verbatim>\<open>post_hdr\<close>: how it ended (\<open>None\<close>: resolved), the current file and the world.\<close>

definition post_hdr :: "env \<Rightarrow> paths \<Rightarrow> world \<Rightarrow> abort option \<times> string \<times> world" where
  "post_hdr en p w = post_hdr_loop en (entries p) (temp p) w"

section \<open>The probe stage of the job\<close>

text \<open>
  \<^verbatim>\<open>
  function run_ffprobe(file) {
      return new Promise(res => {
          ...
          const args = ["-i", file, "-hide_banner", "-of", "json", "-show_format",
                        "-show_streams", "-show_frames", "-read_intervals", "%+#1"];
          const proc = spawn(FFPROBE, args, { stdio: ["ignore", "pipe", "pipe"] });
          ...
          proc.on("exit", c => {
              if (c !== 0) {
                  return res({ _e: Buffer.concat(bufsErr).toString().trim() });
              }
              res(JSON.parse(Buffer.concat(bufsOut).toString()));
          });
      });
  }
  \<close>
  The probe's standard output is given by its parse: \<open>None\<close> when \<^verbatim>\<open>JSON.parse\<close> throws
  (inside the event handler, so nothing catches it), else the object with its
  \<^verbatim>\<open>streams\<close>, \<^verbatim>\<open>frames\<close> and \<^verbatim>\<open>format\<close> properties, each possibly absent.  It is
  the field \<open>probe_json\<close> of the environment.
\<close>

datatype probe_result = ProbeFailed string | ProbeParsed probe_data

definition ffprobe_args :: "string \<Rightarrow> string list" where
  "ffprobe_args file =
     [''-i'', file, ''-hide_banner'', ''-of'', ''json'', ''-show_format'',
      ''-show_streams'', ''-show_frames'', ''-read_intervals'', ''%+#1'']"

definition run_ffprobe :: "env \<Rightarrow> string \<Rightarrow> world \<Rightarrow> probe_result option \<times> world" where
  "run_ffprobe en file w =
     (case spawn en FFPROBE (ffprobe_args file) w of
        (r, w1) \<Rightarrow>
          if fst r \<noteq> Some 0 then (Some (ProbeFailed (trim (snd r))), w1)
          else (case probe_json en of
                  None \<Rightarrow> (None, w1)
                | Some d \<Rightarrow> (Some (ProbeParsed d), w1)))"

text \<open>How the job ends: it ran to the end of \<^verbatim>\<open>main\<close>, it reported an error with \<^verbatim>\<open>err\<close>
  and returned, or an exception that nothing catches ended the process.\<close>

datatype job_end = Finished | Reported report | Crashed js_error

definition err :: "report \<Rightarrow> world \<Rightarrow> job_end \<times> world" where
  "err r w = (Reported r, w\<lparr>trace := trace w @ [Err r]\<rparr>)"

text \<open>
  The start of \<^verbatim>\<open>main\<close>, inside its \<^verbatim>\<open>try\<close> block, whose \<^verbatim>\<open>catch (e) { err(e); }\<close> reports
  any exception:
  \<^verbatim>\<open>
  let paths = { input: resolve(args[0]), output: ..., temp: generate_temp_name(".hevc"),
                dv: null, plus: null, audio_temp: [] };
  const d = await run_ffprobe(paths.input);
  if (d._e) { return err(`Could not parse with ffprobe: ${d._e}`); }
  if (d.streams.length < 1) { return err("No streams were found in the file"); }
  const stream = d.streams.find(x => x.codec_type === "video");
  if (stream === undefined) { return err("No video stream was found in the file"); }
  if (d.frames.length < 1) { return err("No frames were found in the video stream"); }
  const frame = d.frames[0];
  \<close>
  The resolved input and output paths are parameters.  Everything after these lines is
  the parameter \<open>job\<close>, which receives the paths, the probe data, the video stream, the
  first frame and the world: the stages that start the other processes.
\<close>

definition main ::
  "env \<Rightarrow> string \<Rightarrow> string \<Rightarrow>
   (paths \<Rightarrow> probe_data \<Rightarrow> descriptor \<Rightarrow> descriptor \<Rightarrow> world \<Rightarrow> job_end \<times> world) \<Rightarrow>
   world \<Rightarrow> job_end \<times> world" where
  "main en in_path out_path job w0 =
     (case generate_temp_name en ''.hevc'' w0 of
        (t, w1) \<Rightarrow>
          (case run_ffprobe en in_path w1 of
             (None, w2) \<Rightarrow> (Crashed (SyntaxError ''JSON.parse''), w2)
           | (Some (ProbeFailed text), w2) \<Rightarrow>
               if text \<noteq> [] then err (Msg (''Could not parse with ffprobe: '' @ text)) w2
               else err (Exn (TypeError ''d.streams.length'')) w2
           | (Some (ProbeParsed d), w2) \<Rightarrow>
               (case d_streams d of
                  None \<Rightarrow> err (Exn (TypeError ''d.streams.length'')) w2
                | Some ss \<Rightarrow>
                    if length ss < 1 then err (Msg ''No streams were found in the file'') w2
                    else (case List.find (\<lambda>x. codec_type x = JStr ''video'') ss of
                            None \<Rightarrow> err (Msg ''No video stream was found in the file'') w2
                          | Some stream \<Rightarrow>
                              (case d_frames d of
                                 None \<Rightarrow> err (Exn (TypeError ''d.frames.length'')) w2
                               | Some fs \<Rightarrow>
                                   if length fs < 1
                                   then err (Msg ''No frames were found in the video stream'') w2
                                   else job \<lparr>input = in_path, output' = out_path, temp = t,
                                              dv = None, plus' = None, audio_temp = []\<rparr>
                                          d stream (fs ! 0) w2)))))"

section \<open>Reference notions for the statements\<close>





text \<open>Sample mastering-display records: the values a probe prints for a BT.2020
  mastering display, and the same record with one value replaced.\<close>

definition md_sample :: js_object where
  "md_sample =
     empty_object
       (''side_data_type'' := JStr ''Mastering display metadata'',
        ''green_x'' := JStr ''13250/50000'', ''green_y'' := JStr ''34500/50000'',
        ''blue_x'' := JStr ''7500/50000'', ''blue_y'' := JStr ''3000/50000'',
        ''red_x'' := JStr ''34000/50000'', ''red_y'' := JStr ''16000/50000'',
        ''white_point_x'' := JStr ''15635/50000'', ''white_point_y'' := JStr ''16450/50000'',
        ''max_luminance'' := JStr ''10000000/10000'', ''min_luminance'' := JStr ''50/10000'')"



text \<open>A video stream descriptor with neither a duration of its own nor tags, and the
  container record of a file 120.5 seconds long.\<close>

definition bare_stream :: descriptor where
  "bare_stream =
     \<lparr>codec_type = JStr ''video'', pix_fmt = JStr ''yuv420p10le'', duration = JUndefined,
      r_frame_rate = JStr ''24000/1001'', field_order = JStr ''progressive'',
      tags = None, side_data_list = None\<rparr>"

definition format_120 :: js_object where
  "format_120 = empty_object(''duration'' := JStr ''120.5'')"









definition env_ok :: env where
  "env_ok =
     \<lparr>cwd = ''/work'', random_hex = (\<lambda>k. ''a1b2c'' @ [digit_chars ! (k mod 10)]),
      exit_of = (\<lambda>k t a. (Some 0, [])), rm_fails = (\<lambda>k path. False), probe_json = None\<rparr>"

definition world0 :: world where
  "world0 = \<lparr>names = 0, trace = []\<rparr>"

definition paths_sample :: paths where
  "paths_sample =
     \<lparr>input = ''/work/in.mkv'', output' = ''/work/in.hdr-sucks.mkv'',
      temp = ''/work/.hdrsucks-000000.hevc'', dv = None, plus' = None, audio_temp = []\<rparr>"

text \<open>The \<open>k\<close>-th temporary name of a run, and the events of a run of \<^verbatim>\<open>post_hdr\<close> that
  injects Dolby Vision from the sidecar \<open>d\<close> and then HDR10+ from the sidecar \<open>q\<close>.\<close>

definition temp_name :: "env \<Rightarrow> nat \<Rightarrow> string \<Rightarrow> string" where
  "temp_name en k extra = cwd en @ ''/'' @ TEMP_BASE @ random_hex en k @ extra"

definition dv_inject_args :: "env \<Rightarrow> paths \<Rightarrow> string \<Rightarrow> world \<Rightarrow> string list" where
  "dv_inject_args en p d w =
     [''inject-rpu'', ''--rpu-in'', d, ''-i'', temp p, ''-o'', temp_name en (names w) ''.hevc'']"

definition plus_inject_args :: "env \<Rightarrow> string \<Rightarrow> world \<Rightarrow> string list" where
  "plus_inject_args en q w =
     [''inject'', ''-j'', q, ''-i'', temp_name en (names w) ''.hevc'',
      ''-o'', temp_name en (Suc (names w)) ''.hevc'']"

definition inject_events :: "env \<Rightarrow> paths \<Rightarrow> string \<Rightarrow> string \<Rightarrow> world \<Rightarrow> event list" where
  "inject_events en p d q w =
     [Spawn DOVI_TOOL (dv_inject_args en p d w), Rm (temp p), Rm d,
      Spawn HDR10PLUS_TOOL (plus_inject_args en q w),
      Rm (temp_name en (names w) ''.hevc''), Rm q]"



definition paths_both :: paths where
  "paths_both =
     paths_sample\<lparr>dv := Some ''/work/.hdrsucks-1f2e3d.bin'',
                   plus' := Some ''/work/.hdrsucks-4c5b6a.json''\<rparr>"

section \<open>Verified properties\<close>

subsection \<open>Evaluation of the string and number primitives\<close>

lemmas number_evals =
  Number_str_def trim_def is_ws_def str_unsigned_decimal_def is_digit_def digits_val_def
  digit_val_def scale10_def all_digits_def all_in_def signed_integer_def


lemma split_on_nonempty: "split_on c s \<noteq> []"
  by (induction s) (auto split: list.splits)

lemma split_on_no_sep: "c \<notin> set s \<Longrightarrow> split_on c s = [s]"
  by (induction s) auto

lemma split_on_append: "c \<notin> set a \<Longrightarrow> split_on c (a @ c # b) = a # split_on c b"
  by (induction a) auto

lemma length_split_on: "length (split_on c s) = Suc (count_list s c)"
proof (induction s)
  case Nil
  show ?case by simp
next
  case (Cons x xs)
  then show ?case
    by (cases "split_on c xs") auto
qed

lemma hd_split_on: "hd (split_on c s) = takeWhile (\<lambda>x. x \<noteq> c) s"
  by (induction s) (auto simp: split_on_nonempty split: list.splits)

subsection \<open>Rational parsing\<close>

lemma parse_slash_number_bare:
  "CHR ''/'' \<notin> set s \<Longrightarrow> parse_slash_number s = Number_str s"
  by (simp add: parse_slash_number_def split_on_no_sep)

lemma parse_slash_number_many:
  "1 < count_list s CHR ''/'' \<Longrightarrow> parse_slash_number s = NaN"
  by (simp add: parse_slash_number_def length_split_on)

lemma parse_slash_number_pair:
  assumes "CHR ''/'' \<notin> set n" and "CHR ''/'' \<notin> set d"
  shows "parse_slash_number (n @ CHR ''/'' # d) =
           (if Number_str n = NaN \<or> Number_str d = NaN then NaN
            else js_div (Number_str n) (Number_str d))"
proof -
  have "split_on CHR ''/'' (n @ CHR ''/'' # d) = [n, d]"
    using assms by (simp add: split_on_append split_on_no_sep)
  then show ?thesis
    by (simp add: parse_slash_number_def isNaN_def)
qed

text \<open>
  Claim C4, as the code has it.  A string with exactly one \<^verbatim>\<open>/\<close>, \<^verbatim>\<open>N/D\<close>, whose parts
  \<^verbatim>\<open>Number\<close> reads as \<open>a\<close> and \<open>b \<noteq> 0\<close> yields \<open>a / b\<close>, and yields \<open>NaN\<close> when \<^verbatim>\<open>Number\<close>
  reads a part as \<open>NaN\<close>; a string with more than one \<^verbatim>\<open>/\<close> yields \<open>NaN\<close>; a string
  with no \<^verbatim>\<open>/\<close> yields \<^verbatim>\<open>Number\<close> of the whole string, which is \<open>NaN\<close> only when that
  string is not numeric.
\<close>

theorem parse_slash_number_shapes:
  "(CHR ''/'' \<notin> set n \<and> CHR ''/'' \<notin> set d \<and> Number_str n = Fin a \<and> Number_str d = Fin b \<and> b \<noteq> 0
      \<longrightarrow> parse_slash_number (n @ CHR ''/'' # d) = Fin (a / b)) \<and>
   (CHR ''/'' \<notin> set n \<and> CHR ''/'' \<notin> set d \<and> (Number_str n = NaN \<or> Number_str d = NaN)
      \<longrightarrow> parse_slash_number (n @ CHR ''/'' # d) = NaN) \<and>
   (1 < count_list s CHR ''/'' \<longrightarrow> parse_slash_number s = NaN) \<and>
   (CHR ''/'' \<notin> set s \<longrightarrow> parse_slash_number s = Number_str s)"
  by (simp add: parse_slash_number_pair parse_slash_number_many parse_slash_number_bare)

theorem parse_slash_number_shapes_witness:
  "parse_slash_number ''24000/1001'' = Fin (24000 / 1001) \<and>
   parse_slash_number ''x/2'' = NaN \<and>
   parse_slash_number ''1/2/3'' = NaN \<and>
   parse_slash_number ''23.97'' = Fin (2397 / 100)"
proof -
  have n1: "Number_str ''24000'' = Fin 24000" and n2: "Number_str ''1001'' = Fin 1001"
    and n3: "Number_str ''x'' = NaN" and n4: "Number_str ''23.97'' = Fin (2397 / 100)"
    by (simp_all add: number_evals)
  have "parse_slash_number (''24000'' @ CHR ''/'' # ''1001'') = Fin (24000 / 1001)"
    using parse_slash_number_shapes [of "''24000''" "''1001''" 24000 1001 "[]"] n1 n2
    by simp
  moreover have "parse_slash_number (''x'' @ CHR ''/'' # ''2'') = NaN"
    using parse_slash_number_shapes [of "''x''" "''2''" 0 0 "[]"] n3 by simp
  moreover have "parse_slash_number ''1/2/3'' = NaN"
    using parse_slash_number_shapes [of "[]" "[]" 0 0 "''1/2/3''"] by simp
  moreover have "parse_slash_number ''23.97'' = Fin (2397 / 100)"
    using parse_slash_number_shapes [of "[]" "[]" 0 0 "''23.97''"] n4 by simp
  ultimately show ?thesis by simp
qed

text \<open>The claim as stated has every string without a \<^verbatim>\<open>/\<close> yield \<open>NaN\<close>; the bare
  string \<^verbatim>\<open>"24"\<close> has none and yields 24.\<close>

theorem parse_slash_number_bare_counterexample:
  "CHR ''/'' \<notin> set ''24'' \<and> parse_slash_number ''24'' = Fin 24 \<and> parse_slash_number ''24'' \<noteq> NaN"
  by (simp add: parse_slash_number_def number_evals)

subsection \<open>Mastering-display translation\<close>











lemma md_sample_parses:
  "parse_slash_number ''13250/50000'' = Fin (13250 / 50000)"
  "parse_slash_number ''34500/50000'' = Fin (34500 / 50000)"
  "parse_slash_number ''7500/50000'' = Fin (7500 / 50000)"
  "parse_slash_number ''3000/50000'' = Fin (3000 / 50000)"
  "parse_slash_number ''34000/50000'' = Fin (34000 / 50000)"
  "parse_slash_number ''16000/50000'' = Fin (16000 / 50000)"
  "parse_slash_number ''15635/50000'' = Fin (15635 / 50000)"
  "parse_slash_number ''16450/50000'' = Fin (16450 / 50000)"
  "parse_slash_number ''10000000/10000'' = Fin (10000000 / 10000)"
  "parse_slash_number ''50/10000'' = Fin (50 / 10000)"
  by (simp_all add: parse_slash_number_def number_evals isNaN_def)





text \<open>
  Claim C10.  Presence is tested by truthiness: a record whose ten fields are all
  present and numeric, one of them the JSON number 0 (a zero minimum luminance), is
  rejected with the missing-field error, and so is one with an empty string.
\<close>

theorem parse_master_display_falsy_field:
  "list_all (\<lambda>k. (md_sample(''min_luminance'' := JNum (Fin 0))) k \<noteq> JUndefined) master_fields \<and>
   Number_val ((md_sample(''min_luminance'' := JNum (Fin 0))) ''min_luminance'') = Fin 0 \<and>
   parse_master_display (md_sample(''min_luminance'' := JNum (Fin 0))) = Inl (Error ''this wrong'') \<and>
   list_all (\<lambda>k. (md_sample(''green_x'' := JStr [])) k \<noteq> JUndefined) master_fields \<and>
   Number_val ((md_sample(''green_x'' := JStr [])) ''green_x'') = Fin 0 \<and>
   parse_master_display (md_sample(''green_x'' := JStr [])) = Inl (Error ''this wrong'')"
  by (simp add: parse_master_display_def master_fields_def md_sample_def empty_object_def
      md_sample_parses isNaN_def number_evals)

subsection \<open>Pixel-format translation\<close>

text \<open>
  For a format name with a \<^verbatim>\<open>p\<close> that contains \<^verbatim>\<open>yuv\<close>, the result has \<^verbatim>\<open>csp\<close> equal to
  \<^verbatim>\<open>i\<close> followed by the digits before the first \<^verbatim>\<open>p\<close>, and \<^verbatim>\<open>depth\<close> equal to the digits
  between the first \<^verbatim>\<open>p\<close> and the next, \<^verbatim>\<open>8\<close> when there are none.
\<close>

theorem parse_pix_fmt_planar:
  assumes "str_includes (a @ CHR ''p'' # b) ''yuv''" and "CHR ''p'' \<notin> set a"
  shows "parse_pix_fmt (a @ CHR ''p'' # b) =
           Inr \<lparr>csp = ''i'' @ filter is_digit a,
                depth = (if filter is_digit (takeWhile (\<lambda>c. c \<noteq> CHR ''p'') b) = [] then ''8''
                         else filter is_digit (takeWhile (\<lambda>c. c \<noteq> CHR ''p'') b))\<rparr>"
proof -
  have sp: "split_on CHR ''p'' (a @ CHR ''p'' # b) = a # split_on CHR ''p'' b"
    using assms(2) by (simp add: split_on_append)
  have len: "\<not> length (split_on CHR ''p'' (a @ CHR ''p'' # b)) < 2"
    using split_on_nonempty [of "CHR ''p''" b] by (cases "split_on CHR ''p'' b") (simp_all add: sp)
  have one: "split_on CHR ''p'' (a @ CHR ''p'' # b) ! 1 = takeWhile (\<lambda>c. c \<noteq> CHR ''p'') b"
    using hd_split_on [of "CHR ''p''" b] split_on_nonempty [of "CHR ''p''" b]
    by (cases "split_on CHR ''p'' b") (simp_all add: sp)
  have zero: "split_on CHR ''p'' (a @ CHR ''p'' # b) ! 0 = a"
    by (simp add: sp)
  show ?thesis
    unfolding parse_pix_fmt_def Let_def one zero strip_non_digits_def
    using assms(1) len by simp
qed

theorem parse_pix_fmt_planar_witness:
  "parse_pix_fmt ''yuv420p10le'' = Inr \<lparr>csp = ''i420'', depth = ''10''\<rparr> \<and>
   parse_pix_fmt ''yuv444p'' = Inr \<lparr>csp = ''i444'', depth = ''8''\<rparr>"
proof -
  have "parse_pix_fmt (''yuv420'' @ CHR ''p'' # ''10le'') =
      Inr \<lparr>csp = ''i'' @ filter is_digit ''yuv420'',
           depth = (if filter is_digit (takeWhile (\<lambda>c. c \<noteq> CHR ''p'') ''10le'') = [] then ''8''
                    else filter is_digit (takeWhile (\<lambda>c. c \<noteq> CHR ''p'') ''10le''))\<rparr>"
    by (rule parse_pix_fmt_planar) simp_all
  moreover have "parse_pix_fmt (''yuv444'' @ CHR ''p'' # []) =
      Inr \<lparr>csp = ''i'' @ filter is_digit ''yuv444'',
           depth = (if filter is_digit (takeWhile (\<lambda>c. c \<noteq> CHR ''p'') []) = [] then ''8''
                    else filter is_digit (takeWhile (\<lambda>c. c \<noteq> CHR ''p'') []))\<rparr>"
    by (rule parse_pix_fmt_planar) simp_all
  ultimately show ?thesis
    by (simp add: is_digit_def)
qed

lemma parse_pix_fmt_not_yuv:
  "\<not> str_includes s ''yuv'' \<Longrightarrow> parse_pix_fmt s = Inl (Error ''Input must be YUV'')"
  by (simp add: parse_pix_fmt_def)

lemma parse_pix_fmt_examples:
  "parse_pix_fmt ''yuv420p10le'' = Inr \<lparr>csp = ''i420'', depth = ''10''\<rparr>"
  "parse_pix_fmt ''yuv444p'' = Inr \<lparr>csp = ''i444'', depth = ''8''\<rparr>"
  "parse_pix_fmt ''rgb24'' = Inl (Error ''Input must be YUV'')"
  by (simp_all add: parse_pix_fmt_def strip_non_digits_def is_digit_def)

text \<open>
  Claim C6 at the packed format \<^verbatim>\<open>ayuv64le\<close>: the name contains \<^verbatim>\<open>yuv\<close> and no \<^verbatim>\<open>p\<close>, the
  call \<^verbatim>\<open>s[1].replace\<close> is made on \<^verbatim>\<open>undefined\<close>, and the function neither returns a
  result nor throws its own error.
\<close>

theorem parse_pix_fmt_without_p:
  "str_includes ''ayuv64le'' ''yuv'' \<and>
   parse_pix_fmt ''ayuv64le'' = Inl (TypeError ''s[1].replace'')"
  by (simp add: parse_pix_fmt_def)

subsection \<open>Duration resolution\<close>

lemma get_duration_own:
  "truthy (duration stream) \<Longrightarrow> get_duration ts stream fmt = Number_val (duration stream)"
  by (simp add: get_duration_def)

lemma get_duration_first_tag:
  assumes "\<not> truthy (duration stream)" and "tags stream = Some ((k, v) # es)"
  shows "get_duration ts stream fmt =
           (if startsWith (toLowerCase k) ''duration'' then ts v
            else if truthy (fmt ''duration'') then Number_val (fmt ''duration'')
            else (case tags_loop ts (fmt ''duration'') es of Some r \<Rightarrow> r | None \<Rightarrow> NaN))"
  using assms by (simp add: get_duration_def)

lemma get_duration_no_tags:
  assumes "\<not> truthy (duration stream)" and "tags stream = None \<or> tags stream = Some []"
  shows "get_duration ts stream fmt = NaN"
  using assms by (auto simp: get_duration_def)

text \<open>
  Claim C3 at two inputs.  A stream with no duration and no tags in a container
  120.5 seconds long resolves to \<open>NaN\<close>, not to the container's duration; and when the
  first tag is \<^verbatim>\<open>language\<close>, the loop returns the container's duration in its first
  iteration and never reads the \<^verbatim>\<open>DURATION\<close> tag that follows.
\<close>

theorem get_duration_fallback_in_loop:
  "\<not> truthy (duration bare_stream) \<and>
   Number_val (format_120 ''duration'') = Fin (241 / 2) \<and>
   get_duration ts bare_stream format_120 = NaN \<and>
   get_duration ts (bare_stream\<lparr>tags := Some []\<rparr>) format_120 = NaN \<and>
   get_duration ts
     (bare_stream\<lparr>tags := Some [(''language'', JStr ''eng''),
                                (''DURATION'', JStr ''00:01:00.000000000'')]\<rparr>)
     format_120 = Fin (241 / 2)"
  by (simp add: get_duration_def bare_stream_def format_120_def empty_object_def
      toLowerCase_def lower_char_def number_evals)

subsection \<open>Output depth\<close>






subsection \<open>Rolling average and time remaining\<close>
























subsection \<open>First occurrence of each kind of HDR side data\<close>

lemma and_then_None [simp]: "and_then (None, s) f = f s"
  by (simp add: and_then_def)

lemma and_then_Some [simp]: "and_then (Some a, s) f = (Some a, s)"
  by (simp add: and_then_def)






































subsection \<open>Injection after the transcode\<close>

lemma post_hdr_both_steps:
  assumes "dv p = Some d" and "d \<noteq> []" and "plus' p = Some q" and "q \<noteq> []"
  shows "post_hdr en p w =
    (let n = length (trace w);
         r1 = exit_result (exit_of en n DOVI_TOOL (dv_inject_args en p d w));
         r2 = exit_result (exit_of en (n + 3) HDR10PLUS_TOOL (plus_inject_args en q w));
         k = (if failed r1 then 1
              else if rm_fails en (n + 1) (temp p) then 2
              else if rm_fails en (n + 2) d then 3
              else if failed r2 then 4
              else if rm_fails en (n + 4) (temp_name en (names w) ''.hevc'') then 5
              else 6);
         a = (if failed r1
              then Some (Reject (''Injecting HDR (dv) failed ('' @ show_code (res_c r1) @ ''): '' @
                     quoted (show_e (res_e r1))))
              else if rm_fails en (n + 1) (temp p) \<or> rm_fails en (n + 2) d
              then Some (Throw (SystemError ''rm''))
              else if failed r2
              then Some (Reject (''Injecting HDR (plus) failed ('' @ show_code (res_c r2) @ ''): '' @
                     quoted (show_e (res_e r2))))
              else if rm_fails en (n + 4) (temp_name en (names w) ''.hevc'') \<or> rm_fails en (n + 5) q
              then Some (Throw (SystemError ''rm''))
              else None)
     in (a,
         (if k \<le> 3 then temp p
          else if a = None then temp_name en (Suc (names w)) ''.hevc''
          else temp_name en (names w) ''.hevc''),
         w\<lparr>names := (if k \<le> 3 then Suc (names w) else Suc (Suc (names w))),
           trace := trace w @ take k (inject_events en p d q w)\<rparr>))"
  using assms
  by (simp add: post_hdr_def entries_def opt_val_def generate_temp_name_def ff_inject_def
      spawn_def rm_def Let_def inject_events_def dv_inject_args_def plus_inject_args_def
      temp_name_def eval_nat_numeral)

lemma exit_zero_not_failed: "fst x = Some 0 \<Longrightarrow> \<not> failed (exit_result x)"
  by (simp add: exit_result_def failed_def)

lemma post_hdr_both_shape:
  assumes "dv p = Some d" and "d \<noteq> []" and "plus' p = Some q" and "q \<noteq> []"
  shows "\<exists>a cur nn k.
    post_hdr en p w =
      (a, cur, w\<lparr>names := nn, trace := trace w @ take k (inject_events en p d q w)\<rparr>) \<and>
    (fst (exit_of en (length (trace w)) DOVI_TOOL (dv_inject_args en p d w)) = Some 0 \<and>
     \<not> rm_fails en (length (trace w) + 1) (temp p) \<longrightarrow> 3 \<le> k) \<and>
    (a = None \<longrightarrow>
       k = 6 \<and> cur = temp_name en (Suc (names w)) ''.hevc'' \<and> nn = Suc (Suc (names w))) \<and>
    ((\<forall>k t a. fst (exit_of en k t a) = Some 0) \<and> (\<forall>k x. \<not> rm_fails en k x) \<longrightarrow> a = None)"
  unfolding post_hdr_both_steps [OF assms, of en w] Let_def
  apply (intro exI conjI)
     apply (rule refl)
    apply (simp add: exit_zero_not_failed)
   apply (simp split: if_splits)
  apply (simp add: exit_zero_not_failed)
  done

text \<open>
  Claim C2.  For paths with both sidecars set, the run of \<^verbatim>\<open>post_hdr\<close> is a prefix of
  the sequence: Dolby Vision injection on the current file, removal of the prior file
  and of the Dolby Vision sidecar, HDR10+ injection on the file the first injection
  wrote, removal of that file and of the HDR10+ sidecar.  So the Dolby Vision
  injection comes before the HDR10+ one; after a Dolby Vision injection that exits
  with 0 the two removals are issued (the second once the first has succeeded); when
  \<^verbatim>\<open>post_hdr\<close> resolves the whole sequence has run and the value is the file the last
  injection wrote; and it does resolve when both tools exit with 0 and no removal
  fails.
\<close>

theorem post_hdr_dv_before_plus:
  assumes "dv p = Some d" and "d \<noteq> []" and "plus' p = Some q" and "q \<noteq> []"
  shows "(\<exists>k. trace (snd (snd (post_hdr en p w))) = trace w @ take k (inject_events en p d q w)) \<and>
         (fst (exit_of en (length (trace w)) DOVI_TOOL (dv_inject_args en p d w)) = Some 0 \<and>
          \<not> rm_fails en (length (trace w) + 1) (temp p) \<longrightarrow>
            (\<exists>k. 3 \<le> k \<and>
               trace (snd (snd (post_hdr en p w))) = trace w @ take k (inject_events en p d q w))) \<and>
         (fst (post_hdr en p w) = None \<longrightarrow>
            post_hdr en p w =
              (None, temp_name en (Suc (names w)) ''.hevc'',
               w\<lparr>names := Suc (Suc (names w)),
                 trace := trace w @ inject_events en p d q w\<rparr>)) \<and>
         ((\<forall>k t a. fst (exit_of en k t a) = Some 0) \<and> (\<forall>k x. \<not> rm_fails en k x) \<longrightarrow>
            fst (post_hdr en p w) = None)"
proof -
  from post_hdr_both_shape [OF assms, of en w] obtain a cur nn k where
    eq: "post_hdr en p w =
      (a, cur, w\<lparr>names := nn, trace := trace w @ take k (inject_events en p d q w)\<rparr>)"
    and k3: "fst (exit_of en (length (trace w)) DOVI_TOOL (dv_inject_args en p d w)) = Some 0 \<and>
          \<not> rm_fails en (length (trace w) + 1) (temp p) \<longrightarrow> 3 \<le> k"
    and res: "a = None \<longrightarrow>
          k = 6 \<and> cur = temp_name en (Suc (names w)) ''.hevc'' \<and> nn = Suc (Suc (names w))"
    and ok: "(\<forall>k t a. fst (exit_of en k t a) = Some 0) \<and> (\<forall>k x. \<not> rm_fails en k x) \<longrightarrow>
          a = None"
    by blast
  have len: "length (inject_events en p d q w) = 6"
    by (simp add: inject_events_def)
  have tr: "trace (snd (snd (post_hdr en p w))) = trace w @ take k (inject_events en p d q w)"
    by (simp add: eq)
  have c1: "\<exists>k. trace (snd (snd (post_hdr en p w))) = trace w @ take k (inject_events en p d q w)"
    using tr by blast
  have c2: "fst (exit_of en (length (trace w)) DOVI_TOOL (dv_inject_args en p d w)) = Some 0 \<and>
          \<not> rm_fails en (length (trace w) + 1) (temp p) \<longrightarrow>
            (\<exists>k. 3 \<le> k \<and>
               trace (snd (snd (post_hdr en p w))) = trace w @ take k (inject_events en p d q w))"
    using tr k3 by blast
  have c3: "fst (post_hdr en p w) = None \<longrightarrow>
            post_hdr en p w =
              (None, temp_name en (Suc (names w)) ''.hevc'',
               w\<lparr>names := Suc (Suc (names w)),
                 trace := trace w @ inject_events en p d q w\<rparr>)"
    using res len by (simp add: eq)
  have c4: "(\<forall>k t a. fst (exit_of en k t a) = Some 0) \<and> (\<forall>k x. \<not> rm_fails en k x) \<longrightarrow>
            fst (post_hdr en p w) = None"
    using ok by (simp add: eq)
  from c1 c2 c3 c4 show ?thesis by (intro conjI)
qed

theorem post_hdr_dv_before_plus_witness:
  "post_hdr env_ok paths_both world0 =
     (None, ''/work/.hdrsucks-a1b2c1.hevc'',
      \<lparr>names = 2,
       trace =
         [Spawn DOVI_TOOL
            [''inject-rpu'', ''--rpu-in'', ''/work/.hdrsucks-1f2e3d.bin'',
             ''-i'', ''/work/.hdrsucks-000000.hevc'', ''-o'', ''/work/.hdrsucks-a1b2c0.hevc''],
          Rm ''/work/.hdrsucks-000000.hevc'', Rm ''/work/.hdrsucks-1f2e3d.bin'',
          Spawn HDR10PLUS_TOOL
            [''inject'', ''-j'', ''/work/.hdrsucks-4c5b6a.json'',
             ''-i'', ''/work/.hdrsucks-a1b2c0.hevc'', ''-o'', ''/work/.hdrsucks-a1b2c1.hevc''],
          Rm ''/work/.hdrsucks-a1b2c0.hevc'', Rm ''/work/.hdrsucks-4c5b6a.json'']\<rparr>)"
proof -
  have d: "dv paths_both = Some ''/work/.hdrsucks-1f2e3d.bin''"
    and q: "plus' paths_both = Some ''/work/.hdrsucks-4c5b6a.json''"
    by (simp_all add: paths_both_def paths_sample_def)
  have ne: "''/work/.hdrsucks-1f2e3d.bin'' \<noteq> []" "''/work/.hdrsucks-4c5b6a.json'' \<noteq> []"
    by simp_all
  note T = post_hdr_dv_before_plus [OF d ne(1) q ne(2), of env_ok world0]
  have ok: "(\<forall>k t a. fst (exit_of env_ok k t a) = Some 0) \<and> (\<forall>k x. \<not> rm_fails env_ok k x)"
    by (simp add: env_ok_def)
  from T ok have "fst (post_hdr env_ok paths_both world0) = None" by blast
  with T have "post_hdr env_ok paths_both world0 =
      (None, temp_name env_ok (Suc (names world0)) ''.hevc'',
       world0\<lparr>names := Suc (Suc (names world0)),
         trace := trace world0 @
           inject_events env_ok paths_both ''/work/.hdrsucks-1f2e3d.bin''
             ''/work/.hdrsucks-4c5b6a.json'' world0\<rparr>)"
    by blast
  then show ?thesis
    by (simp add: world0_def env_ok_def temp_name_def TEMP_BASE_def inject_events_def
        dv_inject_args_def plus_inject_args_def paths_both_def paths_sample_def
        digit_chars_def)
qed

subsection \<open>Failure of the probe\<close>

text \<open>
  When the probe does not exit with 0, the job ends at the probe stage whatever the
  rest of the job is: \<^verbatim>\<open>main\<close> reports once and returns, and the probe is the only process
  started.  The report is the probe's trimmed diagnostic text when that text is not
  empty.
\<close>

theorem main_probe_failure:
  assumes "fst (exit_of en (length (trace w)) FFPROBE (ffprobe_args in_path)) \<noteq> Some 0"
  shows "main en in_path out_path job w =
    (let text = trim (snd (exit_of en (length (trace w)) FFPROBE (ffprobe_args in_path)));
         r = (if text \<noteq> [] then Msg (''Could not parse with ffprobe: '' @ text)
              else Exn (TypeError ''d.streams.length''))
     in (Reported r,
         w\<lparr>names := Suc (names w),
           trace := trace w @ [Spawn FFPROBE (ffprobe_args in_path), Err r]\<rparr>))"
  using assms
  by (simp add: main_def generate_temp_name_def run_ffprobe_def spawn_def err_def Let_def)

theorem main_probe_failure_witness:
  "main (env_ok\<lparr>exit_of := (\<lambda>k t a. (Some 1, ''in.mkv: Invalid data found''))\<rparr>)
     ''/work/in.mkv'' ''/work/out.mkv'' job world0 =
     (Reported (Msg ''Could not parse with ffprobe: in.mkv: Invalid data found''),
      \<lparr>names = 1,
       trace = [Spawn FFPROBE (ffprobe_args ''/work/in.mkv''),
                Err (Msg ''Could not parse with ffprobe: in.mkv: Invalid data found'')]\<rparr>)"
proof -
  have "fst (exit_of (env_ok\<lparr>exit_of := (\<lambda>k t a. (Some 1, ''in.mkv: Invalid data found''))\<rparr>)
      (length (trace world0)) FFPROBE (ffprobe_args ''/work/in.mkv'')) \<noteq> Some 0"
    by simp
  from main_probe_failure [OF this, of "''/work/out.mkv''" job]
  show ?thesis
    by (simp add: world0_def trim_def is_ws_def Let_def)
qed

text \<open>
  Claim C9 at a probe that exits with 1 and prints nothing: \<^verbatim>\<open>d._e\<close> is the empty
  string, the test \<^verbatim>\<open>if (d._e)\<close> fails, and the job reports the \<^verbatim>\<open>TypeError\<close> of
  \<^verbatim>\<open>d.streams.length\<close> through the \<^verbatim>\<open>catch\<close> of \<^verbatim>\<open>main\<close>, not the probe's failure.  No other
  process is started, whatever the rest of the job is.
\<close>

theorem main_probe_silent_exit:
  "main (env_ok\<lparr>exit_of := (\<lambda>k t a. (Some 1, []))\<rparr>) ''/work/in.mkv'' ''/work/out.mkv'' job world0 =
     (Reported (Exn (TypeError ''d.streams.length'')),
      \<lparr>names = 1,
       trace = [Spawn FFPROBE (ffprobe_args ''/work/in.mkv''),
                Err (Exn (TypeError ''d.streams.length''))]\<rparr>)"
  by (simp add: main_def generate_temp_name_def run_ffprobe_def spawn_def err_def env_ok_def
      world0_def trim_def)

end
